theory Spec2Isabelle
  imports Main "HOL-Library.Word"
begin

section \<open>Data model of the reactor (include/Async/Executor.hpp, second part)\<close>

text \<open>
  A \<open>std::coroutine_handle<>\<close> is an address; \<open>nullptr\<close> is the address 0.
  \<open>size_t\<close> is an unsigned 64-bit integer. A \<open>TimePoint\<close> and a
  \<open>TimePoint::duration\<close> are counts of nanoseconds of the steady clock.
  An OS error is an \<open>errno\<close> value; \<open>std::errc::interrupted\<close> is \<open>EINTR\<close>.
\<close>

type_synonym handle = nat
type_synonym size_t = "64 word"
type_synonym time_point = int
type_synonym duration = int
type_synonym os_error = int

definition null_handle :: handle where
  "null_handle = 0"

definition interrupted :: os_error where
  "interrupted = 4"

text \<open>
  Undefined behaviour and failed assertions of the C++ are results of the model:
  a function that can reach one returns \<open>fault + 'a\<close>.
\<close>

datatype fault =
    EmptyOptionalDeref
  | NullPointerDeref
  | NullHandleResumed
  | AssertionFailed
  | BadOptionalAccess

subsection \<open>Direction and Source\<close>

record Direction =
  handle :: handle

definition takeHandle :: "Direction \<Rightarrow> handle \<times> Direction" where
  "takeHandle d = (handle d, d\<lparr>handle := null_handle\<rparr>)"

definition isEmpty :: "Direction \<Rightarrow> bool" where
  "isEmpty d = (handle d = null_handle)"

record State =
  read :: Direction
  "write" :: Direction

record Source =
  fd :: int
  key :: size_t
  state :: State

text \<open>
  \<open>setReadable\<close> and \<open>setWritable\<close> run under the source's \<open>stateLock\<close>; the
  model returns the boolean result and the source as it is afterwards.
\<close>

definition setReadable :: "handle \<Rightarrow> Source \<Rightarrow> bool \<times> Source" where
  "setReadable h s =
     (if isEmpty (read (state s))
      then (True, s\<lparr>state := (state s)\<lparr>read := (read (state s))\<lparr>handle := h\<rparr>\<rparr>\<rparr>)
      else (False, s))"

definition setWritable :: "handle \<Rightarrow> Source \<Rightarrow> bool \<times> Source" where
  "setWritable h s =
     (if isEmpty (write (state s))
      then (True, s\<lparr>state := (state s)\<lparr>write := (write (state s))\<lparr>handle := h\<rparr>\<rparr>\<rparr>)
      else (False, s))"

subsection \<open>Events, timer operations, the timer map\<close>

text \<open>
  Modelled from the spec: \<open>sys/Event.hpp\<close> is not among the sources. The spec gives
  an event the fields \<open>{key, readable, writable}\<close>; \<open>Event::None(key)\<close>, the empty
  interest mask, has both flags cleared.
\<close>

record Event =
  key :: size_t
  readable :: bool
  writable :: bool

definition Event_None :: "size_t \<Rightarrow> Event" where
  "Event_None k = \<lparr>key = k, readable = False, writable = False\<rparr>"

text \<open>\<open>TimerOp\<close> is a variant of \<open>Insert {key, when, handle}\<close> and \<open>Remove {key, when}\<close>.\<close>

datatype TimerOp =
    Insert size_t time_point handle
  | Remove size_t time_point

text \<open>
  \<open>TimersType\<close> is a \<open>std::map\<close> from \<open>(TimePoint, size_t)\<close> to a handle. The model
  is the list of its entries in iteration order: ascending in the lexicographic order
  of \<open>std::pair\<close>, one entry per key. \<open>map_insert\<close> is \<open>std::map::insert\<close> (an
  existing entry wins), \<open>map_erase\<close> is \<open>erase\<close>, \<open>map_index\<close> is \<open>operator[]\<close>
  (a missing key is inserted with a null handle).
\<close>

type_synonym timer_key = "time_point \<times> size_t"
type_synonym TimersType = "(timer_key \<times> handle) list"

definition pair_less :: "timer_key \<Rightarrow> timer_key \<Rightarrow> bool" where
  "pair_less a b = (fst a < fst b \<or> (fst a = fst b \<and> snd a < snd b))"

fun map_insert :: "timer_key \<Rightarrow> handle \<Rightarrow> TimersType \<Rightarrow> TimersType" where
  "map_insert k h [] = [(k, h)]"
| "map_insert k h (e # es) =
     (if fst e = k then e # es
      else if pair_less k (fst e) then (k, h) # e # es
      else e # map_insert k h es)"

definition map_erase :: "timer_key \<Rightarrow> TimersType \<Rightarrow> TimersType" where
  "map_erase k es = filter (\<lambda>e. fst e \<noteq> k) es"

definition map_index :: "TimersType \<Rightarrow> timer_key \<Rightarrow> handle \<times> TimersType" where
  "map_index es k =
     (case map_of es k of
        Some h \<Rightarrow> (h, es)
      | None \<Rightarrow> (null_handle, map_insert k null_handle es))"

subsection \<open>Slab\<close>

text \<open>
  Modelled from the spec: \<open>Slab.hpp\<close> is not among the sources. The spec gives
  \<open>vacant_entry() \<rightarrow> key_preview\<close>, \<open>insert(value) \<rightarrow> key\<close>,
  \<open>try_remove(key) \<rightarrow> optional<value>\<close>, \<open>get(key) \<rightarrow> optional<&value>\<close>, with dense
  keys that are reused after removal. The model is the vector of entries, \<open>None\<close> for a
  vacant one; the vacant key is the first vacant index, or the length when every
  entry is occupied. Every pointer the reactor stores in the slab comes from
  \<open>make_shared\<close>, so an occupied entry is modelled as the \<open>Source\<close> it points to, and
  \<open>slab_put\<close> is a write through the pointer that \<open>get\<close> returned.
\<close>

type_synonym 'a Slab = "'a option list"

fun vacant_index :: "'a Slab \<Rightarrow> nat" where
  "vacant_index [] = 0"
| "vacant_index (None # es) = 0"
| "vacant_index (Some v # es) = Suc (vacant_index es)"

definition vacantEntry_key :: "'a Slab \<Rightarrow> size_t" where
  "vacantEntry_key s = of_nat (vacant_index s)"

definition slab_insert :: "'a \<Rightarrow> 'a Slab \<Rightarrow> size_t \<times> 'a Slab" where
  "slab_insert v s =
     (let i = vacant_index s
      in (of_nat i, if i < length s then s[i := Some v] else s @ [Some v]))"

definition slab_get :: "'a Slab \<Rightarrow> size_t \<Rightarrow> 'a option" where
  "slab_get s k = (if unat k < length s then s ! unat k else None)"

definition slab_tryRemove :: "size_t \<Rightarrow> 'a Slab \<Rightarrow> 'a option \<times> 'a Slab" where
  "slab_tryRemove k s =
     (if unat k < length s then (s ! unat k, s[unat k := None]) else (None, s))"

definition slab_put :: "size_t \<Rightarrow> 'a \<Rightarrow> 'a Slab \<Rightarrow> 'a Slab" where
  "slab_put k v s = s[unat k := Some v]"

subsection \<open>Reactor\<close>

text \<open>
  The reactor's fields, without the poller and the mutexes; \<open>ID_GENERATOR\<close> is the
  static counter of \<open>insertTimer\<close>. The poller is an external collaborator: its
  answers are arguments of the functions that call it, and \<open>notify\<close> changes nothing
  of the modelled state.
\<close>

record Reactor =
  mTicker :: size_t
  mSources :: "Source Slab"
  mEvents :: "Event list"
  mTimers :: TimersType
  mTimerOps :: "TimerOp list"
  ID_GENERATOR :: size_t

text \<open>
  Modelled from the spec: the declaration of \<open>StdResult\<close> is not among the sources.
  It is a value or an OS error. \<open>StdResult<void> {}\<close> and \<open>res.emplace()\<close> are the
  success value, and \<open>res.emplace(r.error())\<close> is taken to store the error, as the
  spec's "if it returns other OS error, propagate" says.
\<close>

type_synonym 'a StdResult = "os_error + 'a"

definition emplace_void :: "unit StdResult" where
  "emplace_void = Inr ()"

definition emplace_error :: "os_error \<Rightarrow> unit StdResult" where
  "emplace_error e = Inl e"

text \<open>
  A \<open>shared_ptr\<close> held in a local variable is the object it points to, or nothing
  when it is null. What \<open>mPoller.wait\<close> answers is an error, or the count it returns
  together with the events it has put into the buffer.
\<close>

type_synonym 'a shared_ptr = "'a option"
type_synonym poll_result = "(nat \<times> Event list) StdResult"

definition insertTimer :: "time_point \<Rightarrow> handle \<Rightarrow> Reactor \<Rightarrow> size_t \<times> Reactor" where
  "insertTimer when h r =
     (let id' = ID_GENERATOR r
      in (id', r\<lparr>ID_GENERATOR := id' + 1, mTimerOps := mTimerOps r @ [Insert id' when h]\<rparr>))"

definition removeTimer :: "time_point \<Rightarrow> size_t \<Rightarrow> Reactor \<Rightarrow> Reactor" where
  "removeTimer when id' r = r\<lparr>mTimerOps := mTimerOps r @ [Remove id' when]\<rparr>"

text \<open>
  \<open>processTimeOps\<close> pops the operation queue until it is empty and applies each
  operation to the timer map.
\<close>

fun processTimeOps :: "TimerOp list \<Rightarrow> TimersType \<Rightarrow> TimersType" where
  "processTimeOps [] timers = timers"
| "processTimeOps (Insert k when h # ops) timers =
     processTimeOps ops (map_insert (when, k) h timers)"
| "processTimeOps (Remove k when # ops) timers =
     processTimeOps ops (map_erase (when, k) timers)"

text \<open>
  \<open>std::min_element\<close> with a comparison: the first of the smallest elements, nothing
  for an empty range.
\<close>

fun min_element :: "('a \<Rightarrow> 'a \<Rightarrow> bool) \<Rightarrow> 'a list \<Rightarrow> 'a option" where
  "min_element cmp [] = None"
| "min_element cmp (x # xs) = Some (foldl (\<lambda>m y. if cmp y m then y else m) x xs)"

text \<open>The last loop of \<open>processTimers\<close>: \<open>handles.push_back(mTimers[entry])\<close> for each ready key.\<close>

fun push_ready :: "timer_key list \<Rightarrow> TimersType \<Rightarrow> handle list \<Rightarrow> TimersType \<times> handle list" where
  "push_ready [] timers handles = (timers, handles)"
| "push_ready (entry # ready) timers handles =
     (case map_index timers entry of
        (h, timers') \<Rightarrow> push_ready ready timers' (handles @ [h]))"

text \<open>
  \<open>processTimers\<close>; \<open>clock\<close> is what \<open>std::chrono::steady_clock::now()\<close> returns in
  this call, \<open>handles\<close> the vector passed by reference. The result is the returned
  duration, the vector and the reactor afterwards.
\<close>

definition processTimers ::
  "time_point \<Rightarrow> Reactor \<Rightarrow> handle list \<Rightarrow> duration option \<times> handle list \<times> Reactor" where
  "processTimers clock r handles =
     (let timers = processTimeOps (mTimerOps r) (mTimers r);
          now = clock + 1;
          ready = map fst (filter (\<lambda>entry. fst (fst entry) \<le> now) timers);
          pending = map fst (filter (\<lambda>entry. \<not> fst (fst entry) \<le> now) timers);
          duration =
            (if ready = [] then
               (case min_element (\<lambda>a b. fst a < fst b) pending of
                  Some it \<Rightarrow> Some (if fst it - now < 0 then 0 else fst it - now)
                | None \<Rightarrow> Some 0)
             else None)
      in case push_ready ready timers handles of
           (timers', handles') \<Rightarrow>
             (duration, handles', r\<lparr>mTimers := timers', mTimerOps := []\<rparr>))"

subsection \<open>ReactorLock::react\<close>

text \<open>
  The chain of \<open>if\<close>s that fills \<open>waitTimeout\<close> from the caller's \<open>timeout\<close> and the
  \<open>nextTimer\<close> that \<open>processTimers\<close> returned; \<open>None\<close> is the empty optional, which
  the poller takes as "wait with no time limit".
\<close>

definition waitTimeout_of :: "duration option \<Rightarrow> duration option \<Rightarrow> duration option" where
  "waitTimeout_of timeout nextTimer =
     (case (timeout, nextTimer) of
        (Some t, None) \<Rightarrow> Some t
      | (Some t, Some n) \<Rightarrow> Some (min t n)
      | (None, Some n) \<Rightarrow> Some n
      | (None, None) \<Rightarrow> None)"

text \<open>
  The loop over \<open>reactor.mEvents\<close>. \<open>get(ev.key)\<close> finds the source or nothing; the
  handle taken from the slot is pushed whatever it is.
\<close>

fun dispatch_events ::
  "Event list \<Rightarrow> Source Slab \<Rightarrow> handle list \<Rightarrow> Source Slab \<times> handle list" where
  "dispatch_events [] sources handles = (sources, handles)"
| "dispatch_events (ev # evs) sources handles =
     (case slab_get sources (key ev) of
        None \<Rightarrow> dispatch_events evs sources handles
      | Some src \<Rightarrow>
          if writable ev then
            (case takeHandle (write (state src)) of
               (h, d) \<Rightarrow>
                 dispatch_events evs
                   (slab_put (key ev) (src\<lparr>state := (state src)\<lparr>write := d\<rparr>\<rparr>) sources)
                   (handles @ [h]))
          else if readable ev then
            (case takeHandle (read (state src)) of
               (h, d) \<Rightarrow>
                 dispatch_events evs
                   (slab_put (key ev) (src\<lparr>state := (state src)\<lparr>read := d\<rparr>\<rparr>) sources)
                   (handles @ [h]))
          else dispatch_events evs sources handles)"

text \<open>
  \<open>react\<close> up to the call of \<open>e.execute(handles)\<close>. \<open>wait\<close> is the poller: given the
  timeout it is called with, it answers an error or the count it returns together
  with the events it leaves in \<open>mEvents\<close>. \<open>clock1\<close> and \<open>clock2\<close> are the readings of
  the steady clock in the first and in the second call of \<open>processTimers\<close>. The
  result is \<open>res\<close>, the handles vector and the reactor, or the fault of evaluating
  \<open>*waitTimeout\<close> on an empty optional.
\<close>

definition react_collect ::
  "(duration option \<Rightarrow> poll_result) \<Rightarrow> duration option \<Rightarrow> time_point \<Rightarrow> time_point \<Rightarrow>
     Reactor \<Rightarrow> fault + (unit StdResult \<times> handle list \<times> Reactor)" where
  "react_collect wait timeout clock1 clock2 r =
     (case processTimers clock1 r [] of
        (nextTimer, handles, r1) \<Rightarrow>
          let waitTimeout = waitTimeout_of timeout nextTimer;
              r2 = r1\<lparr>mTicker := mTicker r1 + 1, mEvents := []\<rparr>;
              res = emplace_void
          in (case wait waitTimeout of
               Inr (n, events) \<Rightarrow>
                 let r3 = r2\<lparr>mEvents := events\<rparr>
                 in if n = 0 then
                      (case waitTimeout of
                         None \<Rightarrow> Inl EmptyOptionalDeref
                       | Some d \<Rightarrow>
                           if d \<noteq> 0 then
                             (case processTimers clock2 r3 handles of
                                (ignored, handles', r4) \<Rightarrow> Inr (res, handles', r4))
                           else Inr (res, handles, r3))
                    else
                      (case dispatch_events events (mSources r3) handles of
                         (sources, handles') \<Rightarrow>
                           Inr (res, handles', r3\<lparr>mSources := sources\<rparr>))
             | Inl e \<Rightarrow>
                 if e = interrupted then Inr (emplace_void, handles, r2)
                 else Inr (emplace_error e, handles, r2)))"

text \<open>
  \<open>react\<close> itself: what \<open>react_collect\<close> gathered is handed to the executor
  \<open>e\<close>, whose \<open>execute\<close> is the parameter \<open>e_execute\<close>. The executor may resume coroutines, which reach the
  reactor through the \<open>Runtime\<close> binding, so \<open>e_execute\<close> acts on the whole runtime.
\<close>

record Runtime =
  reactor :: Reactor

definition react ::
  "(handle list \<Rightarrow> 'z Runtime_scheme \<Rightarrow> fault + 'z Runtime_scheme) \<Rightarrow>
     (duration option \<Rightarrow> poll_result) \<Rightarrow> duration option \<Rightarrow> time_point \<Rightarrow> time_point \<Rightarrow>
     'z Runtime_scheme \<Rightarrow> fault + (unit StdResult \<times> 'z Runtime_scheme)" where
  "react e_execute wait timeout clock1 clock2 w =
     (case react_collect wait timeout clock1 clock2 (reactor w) of
        Inl f \<Rightarrow> Inl f
      | Inr (res, handles, r) \<Rightarrow>
          (case e_execute handles (w\<lparr>reactor := r\<rparr>) of
             Inl f \<Rightarrow> Inl f
           | Inr w' \<Rightarrow> Inr (res, w')))"

section \<open>InlineExecutor (include/Async/Executor.hpp, first part)\<close>

text \<open>
  The runtime of an \<open>InlineExecutor\<close>: the reactor, the executor's \<open>mQueue\<close> and
  \<open>mSpawnCount\<close>, the \<open>returnValue\<close> slot that \<open>block\<close> keeps on its stack and its
  after-destroy hook fills, and \<open>frames\<close>, the coroutine frames and whatever else
  user code owns. Coroutine bodies are user code: \<open>co h w\<close> is the runtime after the
  coroutine of handle \<open>h\<close> has run from \<open>w\<close> to its next suspension or to its end
  (hooks included). Resuming a null handle is undefined behaviour.
\<close>

record ('a, 'f) InlineWorld = Runtime +
  mQueue :: "handle list"
  mSpawnCount :: size_t
  returnValue :: "'a option"
  frames :: 'f

type_synonym ('a, 'f) coroutines = "handle \<Rightarrow> ('a, 'f) InlineWorld \<Rightarrow> ('a, 'f) InlineWorld"

definition resume ::
  "('a, 'f) coroutines \<Rightarrow> handle \<Rightarrow> ('a, 'f) InlineWorld \<Rightarrow> fault + ('a, 'f) InlineWorld" where
  "resume co h w = (if h = null_handle then Inl NullHandleResumed else Inr (co h w))"

text \<open>
  \<open>spawnDetach\<close>, for the handle \<open>h\<close> of the \<open>DetachTask\<close> it wraps the task in, and
  the two hooks: \<open>afterDestroyFn\<close> of \<open>spawnDetach\<close> and \<open>afterDestroyFn\<close> of \<open>block\<close>.
\<close>

definition spawnDetach :: "handle \<Rightarrow> ('a, 'f) InlineWorld \<Rightarrow> ('a, 'f) InlineWorld" where
  "spawnDetach h w = w\<lparr>mSpawnCount := mSpawnCount w + 1, mQueue := mQueue w @ [h]\<rparr>"

definition spawn_afterDestroyFn :: "('a, 'f) InlineWorld \<Rightarrow> ('a, 'f) InlineWorld" where
  "spawn_afterDestroyFn w = w\<lparr>mSpawnCount := mSpawnCount w - 1\<rparr>"

definition block_afterDestroyFn :: "'a \<Rightarrow> ('a, 'f) InlineWorld \<Rightarrow> ('a, 'f) InlineWorld" where
  "block_afterDestroyFn v w = w\<lparr>returnValue := Some v\<rparr>"

text \<open>\<open>InlineExecutor::execute(handle)\<close> is \<open>handle.resume()\<close>.\<close>

definition execute ::
  "('a, 'f) coroutines \<Rightarrow> handle \<Rightarrow> ('a, 'f) InlineWorld \<Rightarrow> fault + ('a, 'f) InlineWorld" where
  "execute co h w = resume co h w"

text \<open>
  The inner loop of \<open>block\<close>, \<open>while (!mQueue.empty())\<close>: pop the front handle and
  resume it. It need not end (a resumed coroutine may push again): \<open>None\<close> is the
  run that never leaves the loop.
\<close>

partial_function (option) drain_queue ::
  "('a, 'f) coroutines \<Rightarrow> ('a, 'f) InlineWorld \<Rightarrow> (fault + ('a, 'f) InlineWorld) option" where
  "drain_queue co w =
     (case mQueue w of
        [] \<Rightarrow> Some (Inr w)
      | h # q \<Rightarrow>
          (case resume co h (w\<lparr>mQueue := q\<rparr>) of
             Inl f \<Rightarrow> Some (Inl f)
           | Inr w' \<Rightarrow> drain_queue co w'))"

text \<open>
  The outer loop, \<open>while (true)\<close>. The \<open>i\<close>-th call of \<open>react\<close> sees the poller and
  the two clock readings \<open>env i\<close>; its result is discarded, as in the source.
  \<open>react\<close> is called with \<open>*this\<close> as its executor and calls \<open>execute\<close> on it with
  the span of handles. \<open>Executor1\<close> only declares that \<open>execute\<close>, and no class of
  the sources implements it (\<open>InlineExecutor\<close> has \<open>execute(handle)\<close> only), so what
  the executor does with the span is the parameter \<open>e_execute\<close>.
\<close>

type_synonym environment = "nat \<Rightarrow> (duration option \<Rightarrow> poll_result) \<times> time_point \<times> time_point"

type_synonym ('a, 'f) span_execute =
  "handle list \<Rightarrow> ('a, 'f) InlineWorld \<Rightarrow> fault + ('a, 'f) InlineWorld"

partial_function (option) block_loop ::
  "('a, 'f) coroutines \<Rightarrow> ('a, 'f) span_execute \<Rightarrow> environment \<Rightarrow> nat \<Rightarrow>
     ('a, 'f) InlineWorld \<Rightarrow> (fault + ('a, 'f) InlineWorld) option" where
  "block_loop co e_execute env i w =
     (case drain_queue co w of
        None \<Rightarrow> None
      | Some (Inl f) \<Rightarrow> Some (Inl f)
      | Some (Inr w1) \<Rightarrow>
          if mSpawnCount w1 = 0 \<and> returnValue w1 \<noteq> None \<and> mQueue w1 = [] then Some (Inr w1)
          else
            (case env i of
               (wait, clock1, clock2) \<Rightarrow>
                 (case react e_execute wait None clock1 clock2 w1 of
                    Inl f \<Rightarrow> Some (Inl f)
                  | Inr (res, w2) \<Rightarrow> block_loop co e_execute env (Suc i) w2)))"

text \<open>
  \<open>block\<close>, for the handle of the \<open>DetachTask\<close> that wraps the task: the result slot
  starts empty, the handle is resumed, the loop runs, and \<open>returnValue.value()\<close> is
  returned. The overload for \<open>Task<>\<close> is the same loop with the flag \<open>hasValue\<close> for
  the slot: it is this function at the result type \<open>unit\<close>.
\<close>

definition block ::
  "('a, 'f) coroutines \<Rightarrow> ('a, 'f) span_execute \<Rightarrow> environment \<Rightarrow> handle \<Rightarrow>
     ('a, 'f) InlineWorld \<Rightarrow> (fault + 'a \<times> ('a, 'f) InlineWorld) option" where
  "block co e_execute env h w =
     (case resume co h (w\<lparr>returnValue := None\<rparr>) of
        Inl f \<Rightarrow> Some (Inl f)
      | Inr w0 \<Rightarrow>
          (case block_loop co e_execute env 0 w0 of
             None \<Rightarrow> None
           | Some (Inl f) \<Rightarrow> Some (Inl f)
           | Some (Inr w1) \<Rightarrow>
               (case returnValue w1 of
                  None \<Rightarrow> Some (Inl BadOptionalAccess)
                | Some v \<Rightarrow> Some (Inr (v, w1)))))"

section \<open>Reactor::insertIo\<close>

text \<open>
  \<open>insertIo\<close>; \<open>poller_add\<close> is \<open>mPoller.add\<close>. \<open>source\<close> is the local
  \<open>shared_ptr\<close>: \<open>mSources.insert(std::move(source))\<close> hands the pointer to the slab,
  which takes ownership of it, and leaves the moved-from local empty. The two
  \<open>assert\<close>s are checked.
\<close>

definition insertIo ::
  "(int \<Rightarrow> Event \<Rightarrow> unit StdResult) \<Rightarrow> int \<Rightarrow> Reactor \<Rightarrow>
     fault + (Source shared_ptr StdResult \<times> Reactor)" where
  "insertIo poller_add fd' r =
     (let key' = vacantEntry_key (mSources r);
          made = \<lparr>fd = fd', key = key', state = \<lparr>read = \<lparr>handle = null_handle\<rparr>,
                                                  write = \<lparr>handle = null_handle\<rparr>\<rparr>\<rparr>
      in case slab_insert made (mSources r) of
           (k, sources) \<Rightarrow>
             let source = (None :: Source shared_ptr)
             in if k \<noteq> key' then Inl AssertionFailed
                else
                  (case source of
                     None \<Rightarrow> Inl NullPointerDeref
                   | Some s \<Rightarrow>
                       (case poller_add fd' (Event_None (Source.key s)) of
                          Inl e \<Rightarrow>
                            (case slab_tryRemove key' sources of
                               (None, sources') \<Rightarrow> Inl AssertionFailed
                             | (Some removed, sources') \<Rightarrow>
                                 Inr (Inl e, r\<lparr>mSources := sources'\<rparr>))
                        | Inr ok \<Rightarrow> Inr (Inr source, r\<lparr>mSources := sources\<rparr>))))"

section \<open>Concrete runtimes\<close>

text \<open>
  \<open>Reactor()\<close> and \<open>InlineExecutor()\<close>: an empty reactor with ticker 0, and an empty
  queue with spawn count 0 (the result slot of \<open>block\<close> empty, the user's frames
  given).
\<close>

definition Reactor_new :: Reactor where
  "Reactor_new =
     \<lparr>mTicker = 0, mSources = [], mEvents = [], mTimers = [], mTimerOps = [], ID_GENERATOR = 0\<rparr>"

definition InlineWorld_new :: "'f \<Rightarrow> ('a, 'f) InlineWorld" where
  "InlineWorld_new fr =
     \<lparr>reactor = Reactor_new, mQueue = [], mSpawnCount = 0, returnValue = None, frames = fr\<rparr>"

text \<open>
  A reactor on which \<open>insertTimer(5, 7)\<close> has been called: the timer of handle 7 is
  due at time 5 and nobody removes it.
\<close>

definition timer_reactor :: Reactor where
  "timer_reactor = snd (insertTimer 5 7 Reactor_new)"

definition timer_reactor_applied :: Reactor where
  "timer_reactor_applied = timer_reactor\<lparr>mTimers := [((5, 0), 7)], mTimerOps := []\<rparr>"

text \<open>
  A source of key 0 with a read parker (handle 7) and no write parker, one with both
  parkers (7 and 8), and reactors whose slab holds one of them.
\<close>

definition reader_source :: Source where
  "reader_source =
     \<lparr>fd = 3, key = 0, state = \<lparr>read = \<lparr>handle = 7\<rparr>, write = \<lparr>handle = null_handle\<rparr>\<rparr>\<rparr>"

definition both_source :: Source where
  "both_source = \<lparr>fd = 3, key = 0, state = \<lparr>read = \<lparr>handle = 7\<rparr>, write = \<lparr>handle = 8\<rparr>\<rparr>\<rparr>"

definition reader_reactor :: Reactor where
  "reader_reactor = Reactor_new\<lparr>mSources := [Some reader_source]\<rparr>"

text \<open>
  Events: for key 0 with both flags, with the readable flag only, with no flag; and
  with both flags for key 5, which no slab below holds.
\<close>

definition ev_both :: Event where
  "ev_both = \<lparr>key = 0, readable = True, writable = True\<rparr>"

definition ev_readable :: Event where
  "ev_readable = \<lparr>key = 0, readable = True, writable = False\<rparr>"

definition ev_no_flag :: Event where
  "ev_no_flag = \<lparr>key = 0, readable = False, writable = False\<rparr>"

definition ev_closed :: Event where
  "ev_closed = \<lparr>key = 5, readable = True, writable = True\<rparr>"

text \<open>
  Pollers: one whose \<open>wait\<close> returns 0 with no event (the time limit passed, or
  \<open>notify\<close> woke it), one that reports \<open>ev_both\<close>, one that fails with \<open>EINTR\<close> and
  one that fails with \<open>EBADF\<close>.
\<close>

definition wait_no_events :: "duration option \<Rightarrow> poll_result" where
  "wait_no_events t = Inr (0, [])"

definition wait_ev_both :: "duration option \<Rightarrow> poll_result" where
  "wait_ev_both t = Inr (1, [ev_both])"

definition wait_interrupted :: "duration option \<Rightarrow> poll_result" where
  "wait_interrupted t = Inl interrupted"

definition wait_bad_fd :: "duration option \<Rightarrow> poll_result" where
  "wait_bad_fd t = Inl 9"

text \<open>
  Modelled from the spec: an implementation of the \<open>execute\<close> of a span of handles,
  which \<open>react\<close> calls on its executor, is not among the sources. The spec's words for the InlineExecutor are
  "\<open>execute(handles)\<close>: push each into the local queue". It is the executor of the
  concrete runs below and of nothing else.
\<close>

definition execute_handles :: "('a, 'f) span_execute" where
  "execute_handles handles w = Inr (w\<lparr>mQueue := mQueue w @ handles\<rparr>)"

text \<open>
  Two coroutines for \<open>block\<close>. The task of handle 1 spawns a detached task (handle
  2), sleeps until time 5 (it inserts a timer and suspends) and, resumed by the
  timer, removes the timer and ends with the value 42. The detached task ends at
  once. \<open>frames\<close> counts the resumptions of the first task. The poller of every
  \<open>react\<close> returns no event; the clock reads 0 before the wait and 10 after it.
\<close>

definition sleeper :: "(nat, nat) coroutines" where
  "sleeper h w =
     (if h = 2 then spawn_afterDestroyFn w
      else if frames w = 0
      then spawnDetach 2 (w\<lparr>reactor := snd (insertTimer 5 h (reactor w)), frames := 1\<rparr>)
      else block_afterDestroyFn 42 (w\<lparr>reactor := removeTimer 5 0 (reactor w), frames := 2\<rparr>))"

definition quiet_environment :: environment where
  "quiet_environment i = (wait_no_events, 0, 10)"

definition sleeper_final :: "(nat, nat) InlineWorld" where
  "sleeper_final =
     \<lparr>reactor = \<lparr>mTicker = 1, mSources = [], mEvents = [], mTimers = [((5, 0), 1)],
                  mTimerOps = [Remove 0 5], ID_GENERATOR = 1\<rparr>,
      mQueue = [], mSpawnCount = 0, returnValue = Some 42, frames = 2\<rparr>"

section \<open>Properties of the timer map and of processTimers\<close>

lemma map_index_present: "map_of es k = Some h \<Longrightarrow> map_index es k = (h, es)"
  by (simp add: map_index_def)

lemma push_ready_keeps:
  "set ks \<subseteq> fst ` set es \<Longrightarrow> fst (push_ready ks es hs) = es"
proof (induction ks arbitrary: hs)
  case Nil
  then show ?case by simp
next
  case (Cons k ks)
  then obtain h where "map_of es k = Some h"
    by (metis list.set_intros(1) map_of_eq_None_iff not_None_eq subsetD)
  with Cons show ?case by (simp add: map_index_present)
qed

text \<open>
  \<open>processTimers\<close> applies the queued operations and nothing else to the timer map:
  the entries it found ready stay in it.
\<close>

lemma processTimers_keeps_timers:
  "mTimers (snd (snd (processTimers clock r hs))) = processTimeOps (mTimerOps r) (mTimers r)"
proof -
  let ?ts = "processTimeOps (mTimerOps r) (mTimers r)"
  let ?ready = "map fst (filter (\<lambda>entry. fst (fst entry) \<le> clock + 1) ?ts)"
  have "set ?ready \<subseteq> fst ` set ?ts" by auto
  then have "fst (push_ready ?ready ?ts hs) = ?ts" by (rule push_ready_keeps)
  then obtain hs' where "push_ready ?ready ?ts hs = (?ts, hs')"
    by (metis prod.collapse)
  then show ?thesis
    by (simp add: processTimers_def Let_def)
qed

text \<open>
  What \<open>processTimers\<close> returns: nothing as soon as one timer is ready, and a zero
  duration when the map holds no timer at all.
\<close>

lemma processTimers_ready_None:
  "filter (\<lambda>entry. fst (fst entry) \<le> clock + 1) (processTimeOps (mTimerOps r) (mTimers r)) \<noteq> [] \<Longrightarrow>
     fst (processTimers clock r hs) = None"
  by (simp add: processTimers_def Let_def split: prod.splits)

lemma processTimers_no_timers:
  "processTimeOps (mTimerOps r) (mTimers r) = [] \<Longrightarrow> fst (processTimers clock r hs) = Some 0"
  by (simp add: processTimers_def Let_def split: prod.splits)

lemmas model_defs =
  processTimers_def waitTimeout_of_def map_index_def null_handle_def interrupted_def
  slab_get_def slab_put_def takeHandle_def emplace_void_def emplace_error_def

section \<open>The wait passed to the poller\<close>

text \<open>
  C1. In react the wait passed to poller.wait should be 0 whenever the ready list is
  non-empty. On \<open>timer_reactor\<close> at clock 10 the timer due at 5 is ready and its
  handle is collected, yet \<open>processTimers\<close> returns no duration: with no caller
  timeout \<open>waitTimeout\<close> is empty (the poller waits with no time limit, \<open>react\<close>
  consults it at \<open>None\<close> only), and with a caller timeout of 3 it is 3, not 0.
  With no timer at all and no caller timeout the wait is 0, not indefinite.
\<close>

theorem react_ready_timer_wait_not_zero:
  "processTimers 10 timer_reactor [] = (None, [7], timer_reactor_applied) \<and>
   waitTimeout_of None (fst (processTimers 10 timer_reactor [])) = None \<and>
   waitTimeout_of (Some 3) (fst (processTimers 10 timer_reactor [])) = Some 3 \<and>
   react_collect wait None 10 clock' timer_reactor =
     react_collect (\<lambda>t. wait None) None 10 clock' timer_reactor \<and>
   fst (processTimers 10 Reactor_new []) = Some 0 \<and>
   waitTimeout_of None (fst (processTimers 10 Reactor_new [])) = Some 0"
  by (simp add: react_collect_def model_defs insertTimer_def Reactor_new_def timer_reactor_def
      timer_reactor_applied_def Let_def split: sum.splits)

section \<open>Delivery of expired timers\<close>

text \<open>
  C2. The handle of an expired timer that nobody removed should be collected once.
  On \<open>timer_reactor\<close>, a \<open>react\<close> at clock 10 that polls without waiting collects
  handle 7 and leaves the timer in the map; the next \<open>react\<close>, at clock 20, collects
  handle 7 again; and one \<open>react\<close> with a caller timeout of 3 whose wait returns no
  event collects it twice, once in each call of \<open>processTimers\<close>.
\<close>

theorem expired_timer_collected_again:
  "react_collect wait_no_events (Some 0) 10 10 timer_reactor =
     Inr (Inr (), [7], timer_reactor_applied\<lparr>mTicker := 1\<rparr>) \<and>
   react_collect wait_no_events (Some 0) 20 20 (timer_reactor_applied\<lparr>mTicker := 1\<rparr>) =
     Inr (Inr (), [7], timer_reactor_applied\<lparr>mTicker := 2\<rparr>) \<and>
   react_collect wait_no_events (Some 3) 10 13 timer_reactor =
     Inr (Inr (), [7, 7], timer_reactor_applied\<lparr>mTicker := 1\<rparr>)"
  by (simp add: react_collect_def model_defs insertTimer_def Reactor_new_def timer_reactor_def
      timer_reactor_applied_def wait_no_events_def)

section \<open>Dispatch of poller events\<close>

lemma slab_get_put:
  "unat k < length s \<Longrightarrow> slab_get (slab_put k v s) k = Some v"
  by (simp add: slab_get_def slab_put_def)

text \<open>
  C3, as amended. In the event loop of react an event whose key is in the slab takes
  and collects exactly one parker: the write parker when the event is writable and a
  write parker is installed, and the read parker when the event is not writable but
  readable and a read parker is installed. An event that is neither writable nor
  readable takes and collects nothing; an event whose key is not in the slab is
  dropped. The slot taken from is left empty, and the events are handled one after
  the other, each on the slab and the vector the one before left. Nothing is said
  here of an event that selects an empty slot.
\<close>

theorem dispatch_events_takes_by_flag:
  "(slab_get sources (key ev) = None \<longrightarrow>
      dispatch_events [ev] sources handles = (sources, handles)) \<and>
   (slab_get sources (key ev) = Some src \<and> writable ev \<and> \<not> isEmpty (write (state src)) \<longrightarrow>
      handle (write (state src)) \<noteq> null_handle \<and>
      dispatch_events [ev] sources handles =
        (slab_put (key ev)
           (src\<lparr>state := (state src)\<lparr>write := (write (state src))\<lparr>handle := null_handle\<rparr>\<rparr>\<rparr>) sources,
         handles @ [handle (write (state src))])) \<and>
   (slab_get sources (key ev) = Some src \<and> \<not> writable ev \<and> readable ev \<and>
      \<not> isEmpty (read (state src)) \<longrightarrow>
      handle (read (state src)) \<noteq> null_handle \<and>
      dispatch_events [ev] sources handles =
        (slab_put (key ev)
           (src\<lparr>state := (state src)\<lparr>read := (read (state src))\<lparr>handle := null_handle\<rparr>\<rparr>\<rparr>) sources,
         handles @ [handle (read (state src))])) \<and>
   (slab_get sources (key ev) = Some src \<and> \<not> writable ev \<and> \<not> readable ev \<longrightarrow>
      dispatch_events [ev] sources handles = (sources, handles)) \<and>
   dispatch_events (ev # evs) sources handles =
     (case dispatch_events [ev] sources handles of
        (sources', handles') \<Rightarrow> dispatch_events evs sources' handles')"
  by (simp add: takeHandle_def isEmpty_def split: option.splits prod.splits)

theorem dispatch_events_takes_by_flag_witness:
  "slab_get [Some both_source] (key ev_closed) = None \<and>
   dispatch_events [ev_closed] [Some both_source] [1] = ([Some both_source], [1]) \<and>
   slab_get [Some both_source] (key ev_both) = Some both_source \<and>
   writable ev_both \<and> \<not> isEmpty (write (state both_source)) \<and>
   dispatch_events [ev_both] [Some both_source] [1] =
     ([Some (both_source\<lparr>state := \<lparr>read = \<lparr>handle = 7\<rparr>, write = \<lparr>handle = 0\<rparr>\<rparr>\<rparr>)], [1, 8]) \<and>
   \<not> writable ev_readable \<and> readable ev_readable \<and> \<not> isEmpty (read (state both_source)) \<and>
   dispatch_events [ev_readable] [Some both_source] [1] =
     ([Some (both_source\<lparr>state := \<lparr>read = \<lparr>handle = 0\<rparr>, write = \<lparr>handle = 8\<rparr>\<rparr>\<rparr>)], [1, 7]) \<and>
   \<not> writable ev_no_flag \<and> \<not> readable ev_no_flag \<and>
   dispatch_events [ev_no_flag] [Some both_source] [1] = ([Some both_source], [1])"
  using
    dispatch_events_takes_by_flag [of "[Some both_source]" ev_closed "[1]" both_source "[]"]
    dispatch_events_takes_by_flag [of "[Some both_source]" ev_both "[1]" both_source "[]"]
    dispatch_events_takes_by_flag [of "[Some both_source]" ev_readable "[1]" both_source "[]"]
    dispatch_events_takes_by_flag [of "[Some both_source]" ev_no_flag "[1]" both_source "[]"]
  by (simp add: slab_get_def slab_put_def both_source_def null_handle_def isEmpty_def
      ev_both_def ev_readable_def ev_no_flag_def ev_closed_def)

text \<open>
  The wording "otherwise the read parker" fails on an event with neither flag: the
  source of key 0 is in the slab, the event is not writable, and the read parker 7
  is neither taken nor collected.
\<close>

theorem dispatch_event_without_flag_counterexample:
  "slab_get [Some reader_source] (key ev_no_flag) = Some reader_source \<and>
   \<not> writable ev_no_flag \<and>
   handle (read (state reader_source)) = 7 \<and>
   dispatch_events [ev_no_flag] [Some reader_source] [] = ([Some reader_source], [])"
  by (simp add: slab_get_def reader_source_def ev_no_flag_def)

section \<open>Source parking slots\<close>

text \<open>
  C4. For every Source and every direction at most one parker is installed: when the
  read (resp. write) slot is occupied, setReadable (resp. setWritable) returns false
  and leaves the source, hence the installed handle, unchanged; when the slot is
  empty it stores the handle in that slot, touches nothing else and returns true.
\<close>

theorem set_parker_at_most_one:
  "(isEmpty (read (state s)) \<longrightarrow>
      fst (setReadable h s) = True \<and>
      handle (read (state (snd (setReadable h s)))) = h \<and>
      write (state (snd (setReadable h s))) = write (state s) \<and>
      fd (snd (setReadable h s)) = fd s \<and> Source.key (snd (setReadable h s)) = Source.key s) \<and>
   (\<not> isEmpty (read (state s)) \<longrightarrow> setReadable h s = (False, s)) \<and>
   (isEmpty (write (state s)) \<longrightarrow>
      fst (setWritable h s) = True \<and>
      handle (write (state (snd (setWritable h s)))) = h \<and>
      read (state (snd (setWritable h s))) = read (state s) \<and>
      fd (snd (setWritable h s)) = fd s \<and> Source.key (snd (setWritable h s)) = Source.key s) \<and>
   (\<not> isEmpty (write (state s)) \<longrightarrow> setWritable h s = (False, s))"
  by (simp add: setReadable_def setWritable_def)

theorem set_parker_at_most_one_witness:
  "isEmpty (read (state (reader_source\<lparr>state := \<lparr>read = \<lparr>handle = 0\<rparr>, write = \<lparr>handle = 0\<rparr>\<rparr>\<rparr>))) \<and>
   fst (setReadable 7 (reader_source\<lparr>state := \<lparr>read = \<lparr>handle = 0\<rparr>, write = \<lparr>handle = 0\<rparr>\<rparr>\<rparr>)) = True \<and>
   handle (read (state (snd (setReadable 7
      (reader_source\<lparr>state := \<lparr>read = \<lparr>handle = 0\<rparr>, write = \<lparr>handle = 0\<rparr>\<rparr>\<rparr>))))) = 7 \<and>
   fst (setWritable 8 (reader_source\<lparr>state := \<lparr>read = \<lparr>handle = 0\<rparr>, write = \<lparr>handle = 0\<rparr>\<rparr>\<rparr>)) = True \<and>
   \<not> isEmpty (read (state both_source)) \<and>
   \<not> isEmpty (write (state both_source)) \<and>
   setReadable 9 both_source = (False, both_source) \<and>
   setWritable 9 both_source = (False, both_source)"
  using
    set_parker_at_most_one
      [of "reader_source\<lparr>state := \<lparr>read = \<lparr>handle = 0\<rparr>, write = \<lparr>handle = 0\<rparr>\<rparr>\<rparr>" 7]
    set_parker_at_most_one
      [of "reader_source\<lparr>state := \<lparr>read = \<lparr>handle = 0\<rparr>, write = \<lparr>handle = 0\<rparr>\<rparr>\<rparr>" 8]
    set_parker_at_most_one [of both_source 9]
  by (simp add: isEmpty_def null_handle_def reader_source_def both_source_def)


section \<open>Null handles and the empty optional in react\<close>

text \<open>
  C8. Every handle react collects from an event and passes to the executor should be
  non-null. On \<open>reader_reactor\<close> the source of key 0 has a read parker and no write
  parker; for the event \<open>ev_both\<close>, readable and writable, react takes the handle
  of the empty write slot: the vector it passes to the executor, whatever the
  executor is, is the null handle alone, and the read parker 7 stays parked.
  \<open>InlineExecutor::execute\<close>, given that handle, resumes a null handle.
\<close>

theorem dispatch_collects_null_handle:
  "react_collect wait_ev_both None 0 0 reader_reactor =
     Inr (Inr (), [null_handle], reader_reactor\<lparr>mTicker := 1, mEvents := [ev_both]\<rparr>) \<and>
   react e_execute wait_ev_both None 0 0 (w\<lparr>reactor := reader_reactor\<rparr>) =
     (case e_execute [null_handle]
             (w\<lparr>reactor := reader_reactor\<lparr>mTicker := 1, mEvents := [ev_both]\<rparr>\<rparr>) of
        Inl f \<Rightarrow> Inl f
      | Inr w' \<Rightarrow> Inr (Inr (), w')) \<and>
   execute co null_handle w0 = Inl NullHandleResumed"
  by (simp add: react_def react_collect_def model_defs execute_def resume_def Reactor_new_def
      reader_reactor_def reader_source_def wait_ev_both_def ev_both_def)

text \<open>
  C9. The comparison \<open>*waitTimeout != 0s\<close> should never be evaluated on an empty
  \<open>waitTimeout\<close>. On \<open>timer_reactor\<close> at clock 10, with no caller timeout, the timer
  is ready, \<open>processTimers\<close> returns nothing and \<open>waitTimeout\<close> stays empty; when
  the wait then returns 0 events, react evaluates \<open>*waitTimeout\<close> on the empty
  optional.
\<close>

theorem react_derefs_empty_waitTimeout:
  "react_collect wait_no_events None 10 clock' timer_reactor = Inl EmptyOptionalDeref"
  by (simp add: react_collect_def model_defs insertTimer_def Reactor_new_def timer_reactor_def
      wait_no_events_def)

section \<open>Failures of poller.wait\<close>

text \<open>
  C6. When poller.wait fails, react returns success if the error is EINTR and returns
  the error itself otherwise. In both cases no event is dispatched and timers are
  not processed again: the executor is given the handles of the first
  \<open>processTimers\<close> call, on the reactor with the ticker bumped and the event buffer
  cleared.
\<close>

theorem react_wait_failure:
  assumes "processTimers clock (reactor w) [] = (nextTimer, handles, r')"
    and "wait (waitTimeout_of timeout nextTimer) = Inl e"
    and "e_execute handles (w\<lparr>reactor := r'\<lparr>mTicker := mTicker r' + 1, mEvents := []\<rparr>\<rparr>) = Inr w'"
  shows "react e_execute wait timeout clock clock' w =
           Inr (if e = interrupted then Inr () else Inl e, w')"
  using assms by (simp add: react_def react_collect_def emplace_void_def emplace_error_def)

theorem react_wait_failure_witness:
  "react execute_handles wait_interrupted None 0 0 (InlineWorld_new 0 :: (nat, nat) InlineWorld) =
     Inr (Inr (), (InlineWorld_new 0)\<lparr>reactor := Reactor_new\<lparr>mTicker := 1\<rparr>\<rparr>) \<and>
   react execute_handles wait_bad_fd None 0 0 (InlineWorld_new 0 :: (nat, nat) InlineWorld) =
     Inr (Inl 9, (InlineWorld_new 0)\<lparr>reactor := Reactor_new\<lparr>mTicker := 1\<rparr>\<rparr>)"
  using
    react_wait_failure
      [where e_execute = execute_handles and wait = wait_interrupted and timeout = None
         and clock = 0 and clock' = 0 and w = "InlineWorld_new 0 :: (nat, nat) InlineWorld"
         and nextTimer = "Some 0" and handles = "[]" and r' = Reactor_new and e = interrupted
         and w' = "(InlineWorld_new 0)\<lparr>reactor := Reactor_new\<lparr>mTicker := 1\<rparr>\<rparr>"]
    react_wait_failure
      [where e_execute = execute_handles and wait = wait_bad_fd and timeout = None
         and clock = 0 and clock' = 0 and w = "InlineWorld_new 0 :: (nat, nat) InlineWorld"
         and nextTimer = "Some 0" and handles = "[]" and r' = Reactor_new and e = 9
         and w' = "(InlineWorld_new 0)\<lparr>reactor := Reactor_new\<lparr>mTicker := 1\<rparr>\<rparr>"]
  by (simp add: processTimers_def waitTimeout_of_def Reactor_new_def InlineWorld_new_def
      interrupted_def wait_interrupted_def wait_bad_fd_def execute_handles_def)

section \<open>InlineExecutor: execute and block\<close>

text \<open>
  C5, as amended. InlineExecutor's execute resumes the handle it receives inline, at
  the moment of the call, and does not push it into the local run queue: the
  runtime after execute is the runtime the coroutine's run leaves, and the queue
  changes only if the resumed coroutine itself changes it.
\<close>

theorem execute_resumes_inline:
  "(h \<noteq> null_handle \<longrightarrow> execute co h w = Inr (co h w)) \<and>
   (h \<noteq> null_handle \<and> mQueue (co h w) = mQueue w \<longrightarrow>
      (case execute co h w of Inl f \<Rightarrow> False | Inr w' \<Rightarrow> mQueue w' = mQueue w))"
  by (simp add: execute_def resume_def)

theorem execute_resumes_inline_witness:
  "(7::nat) \<noteq> null_handle \<and>
   execute block_afterDestroyFn 7 (InlineWorld_new () :: (nat, unit) InlineWorld) =
     Inr (InlineWorld_new ()\<lparr>returnValue := Some 7\<rparr>) \<and>
   mQueue (block_afterDestroyFn 7 (InlineWorld_new () :: (nat, unit) InlineWorld)) =
     mQueue (InlineWorld_new () :: (nat, unit) InlineWorld) \<and>
   (case execute block_afterDestroyFn 7 (InlineWorld_new () :: (nat, unit) InlineWorld) of
      Inl f \<Rightarrow> False
    | Inr w' \<Rightarrow> mQueue w' = mQueue (InlineWorld_new () :: (nat, unit) InlineWorld))"
  using execute_resumes_inline
    [of 7 block_afterDestroyFn "InlineWorld_new () :: (nat, unit) InlineWorld"]
  by (simp add: null_handle_def block_afterDestroyFn_def)

text \<open>
  The wording "pushes each handle into the local run queue and does not resume it
  inline" fails: the coroutine of handle 7 ends at its first resumption and fills
  the result slot with 7. After execute the run queue is still empty and the slot is
  filled: the handle was resumed inside execute, not queued.
\<close>

theorem execute_does_not_enqueue_counterexample:
  "execute block_afterDestroyFn 7 (InlineWorld_new ()) =
     Inr \<lparr>reactor = Reactor_new, mQueue = [], mSpawnCount = 0, returnValue = Some 7, frames = ()\<rparr>"
  by (simp add: execute_def resume_def null_handle_def block_afterDestroyFn_def InlineWorld_new_def)

text \<open>Every way out of the drive loop with a runtime goes through its exit test.\<close>

lemma block_loop_exit:
  assumes "block_loop co e_execute env i w = Some y"
  shows "case y of Inl f \<Rightarrow> True
         | Inr w' \<Rightarrow> mSpawnCount w' = 0 \<and> returnValue w' \<noteq> None \<and> mQueue w' = []"
proof (rule block_loop.raw_induct
    [where P = "\<lambda>co e_execute env i w y. case y of Inl f \<Rightarrow> True
                  | Inr w' \<Rightarrow> mSpawnCount w' = 0 \<and> returnValue w' \<noteq> None \<and> mQueue w' = []",
     OF _ assms])
  fix loop and co :: "('a, 'b) coroutines" and e_execute :: "('a, 'b) span_execute"
    and env :: environment and i w y
  assume IH: "\<And>co e_execute env i w y. loop co e_execute env i w = Some y \<Longrightarrow>
      (case y of Inl f \<Rightarrow> True
       | Inr w' \<Rightarrow> mSpawnCount w' = 0 \<and> returnValue w' \<noteq> None \<and> mQueue w' = [])"
    and body: "(case drain_queue co w of
        None \<Rightarrow> None
      | Some (Inl f) \<Rightarrow> Some (Inl f)
      | Some (Inr w1) \<Rightarrow>
          if mSpawnCount w1 = 0 \<and> returnValue w1 \<noteq> None \<and> mQueue w1 = [] then Some (Inr w1)
          else
            (case env i of
               (wait, clock1, clock2) \<Rightarrow>
                 (case react e_execute wait None clock1 clock2 w1 of
                    Inl f \<Rightarrow> Some (Inl f)
                  | Inr (res, w2) \<Rightarrow> loop co e_execute env (Suc i) w2))) = Some y"
  show "case y of Inl f \<Rightarrow> True
       | Inr w' \<Rightarrow> mSpawnCount w' = 0 \<and> returnValue w' \<noteq> None \<and> mQueue w' = []"
    using body
    by (auto split: option.splits sum.splits if_splits prod.splits dest!: IH)
qed

lemma drain_queue_Nil: "mQueue w = [] \<Longrightarrow> drain_queue co w = Some (Inr w)"
  by (subst drain_queue.simps) simp

lemma drain_queue_Cons:
  "mQueue w = h # q \<Longrightarrow> h \<noteq> null_handle \<Longrightarrow>
     drain_queue co w = drain_queue co (co h (w\<lparr>mQueue := q\<rparr>))"
  by (subst drain_queue.simps) (simp add: resume_def)

text \<open>
  The loop does leave: when the queue drains into a runtime that passes the exit
  test, that runtime is returned without a call of \<open>react\<close>.
\<close>

lemma block_loop_returns:
  "drain_queue co w = Some (Inr w1) \<Longrightarrow> mSpawnCount w1 = 0 \<Longrightarrow> returnValue w1 = Some v \<Longrightarrow>
     mQueue w1 = [] \<Longrightarrow> block_loop co e_execute env i w = Some (Inr w1)"
  by (subst block_loop.simps) simp

text \<open>
  The run of \<open>sleeper\<close>: the first resumption spawns task 2 and inserts the timer;
  the loop drains task 2 and fails the exit test; \<open>react\<close> waits 4ns, finds the
  timer ready afterwards and hands handle 1 to the executor, which queues it; the
  loop resumes task 1, which ends with 42, and then leaves.
\<close>

lemma sleeper_run:
  "block sleeper execute_handles quiet_environment 1 (InlineWorld_new 0) =
     Some (Inr (42, sleeper_final))"
  by (simp add: block_def execute_handles_def block_loop.simps drain_queue_Nil drain_queue_Cons react_def
      react_collect_def model_defs insertTimer_def removeTimer_def execute_def resume_def
      block_afterDestroyFn_def spawn_afterDestroyFn_def spawnDetach_def sleeper_def
      quiet_environment_def
      wait_no_events_def InlineWorld_new_def Reactor_new_def sleeper_final_def)

text \<open>
  C7. InlineExecutor::block returns only when spawn_count is 0, the top-level task's
  result slot is filled and the local run queue is empty: whenever block returns a
  value, the runtime at that moment has spawn count 0, an empty queue, and the
  returned value in the result slot.
\<close>

theorem block_returns_only_when_done:
  "block co e_execute env h w = Some (Inr (v, w')) \<Longrightarrow>
     mSpawnCount w' = 0 \<and> returnValue w' = Some v \<and> mQueue w' = []"
  unfolding block_def
  by (auto split: option.splits sum.splits dest!: block_loop_exit)

theorem block_returns_only_when_done_witness:
  "block sleeper execute_handles quiet_environment 1 (InlineWorld_new 0) =
     Some (Inr (42, sleeper_final)) \<and>
   mSpawnCount sleeper_final = 0 \<and> returnValue sleeper_final = Some 42 \<and>
   mQueue sleeper_final = []"
  using block_returns_only_when_done [OF sleeper_run] sleeper_run by simp

section \<open>insertIo\<close>

text \<open>
  C10. insertIo should never dereference the source pointer after it has been moved
  into the slab, and should return a non-null Source on success. For every poller,
  fd and reactor, insertIo evaluates \<open>source->key\<close> on the moved-from, empty pointer
  before it calls the poller: no call of insertIo returns.
\<close>

theorem insertIo_derefs_moved_source:
  "insertIo poller_add fd' r = Inl NullPointerDeref"
  by (simp add: insertIo_def slab_insert_def vacantEntry_key_def Let_def)

end
